theory Spec2Isabelle
  imports Main "HOL-Library.Sublist" "HOL-Library.Char_ord" "HOL-Library.List_Lexorder"
begin

section \<open>Data model\<close>

text \<open>
  The pages of the storefront read and write rows of the tables \<open>products\<close> and
  \<open>categories\<close> through the query builder of the hosted store. The row types are
  declared in \<open>lib/database.types\<close>; the records below carry the columns that the
  pages name. The home page filters on the column \<open>category_id\<close>, the product form
  writes the column \<open>category\<close> (the value of its select box), so a product row has both.

  Timestamps are points on a linear time axis. Strings are lists of 8-bit characters.
\<close>

type_synonym timestamp = int

text \<open>
  A JavaScript number is a floating-point value. The form obtains the price and the stock
  count of a product by \<open>parseFloat\<close> and \<open>parseInt\<close> from the text of its input
  fields; a number is represented by the call that produces it.
\<close>

datatype number = parseFloat string | parseInt string

record product =
  id' :: string
  seller_id :: string
  title :: string
  description :: string
  price :: number
  category :: string
  category_id :: "string option"
  stock_count :: number
  condition :: string
  images :: "string list"
  status :: string
  created_at :: timestamp
  updated_at :: timestamp

record category_row =
  cat_id :: string
  cat_name :: string
  parent_id :: "string option"
  display_order :: int

text \<open>The failure kinds of the specification (section 7).\<close>

datatype store_error = ValidationFailed | NotFound | Forbidden | RepositoryUnavailable | WriteConflict

section \<open>The store: filtered, ordered and limited list queries\<close>

text \<open>
  A list query is built by chaining calls on the query builder; each call adds a filter,
  an order clause or a limit to the request. The request is data: the store evaluates it.
  The builder calls below are the ones that the pages make (\<open>from\<close>, \<open>eq\<close>, \<open>is\<close>,
  \<open>or\<close>, \<open>order\<close>, \<open>limit\<close>); the argument of \<open>or\<close> is kept as the list of
  the conditions that the page writes into it.
\<close>

datatype condition = Eq string string | Is_null string | Ilike string string | Or "condition list"

record query =
  table_name :: string
  filters :: "condition list"
  ordering :: "(string \<times> bool) list"
  row_limit :: "nat option"

definition from_table :: "string \<Rightarrow> query" where
  "from_table t = \<lparr>table_name = t, filters = [], ordering = [], row_limit = None\<rparr>"

definition eq :: "string \<Rightarrow> string \<Rightarrow> query \<Rightarrow> query" where
  "eq column v q = q\<lparr>filters := filters q @ [Eq column v]\<rparr>"

definition is_null :: "string \<Rightarrow> query \<Rightarrow> query" where
  "is_null column q = q\<lparr>filters := filters q @ [Is_null column]\<rparr>"

definition or_filter :: "condition list \<Rightarrow> query \<Rightarrow> query" where
  "or_filter cs q = q\<lparr>filters := filters q @ [Or cs]\<rparr>"

definition order_by :: "string \<Rightarrow> bool \<Rightarrow> query \<Rightarrow> query" where
  "order_by column ascending q = q\<lparr>ordering := ordering q @ [(column, ascending)]\<rparr>"

definition limit_to :: "nat \<Rightarrow> query \<Rightarrow> query" where
  "limit_to n q = q\<lparr>row_limit := Some n\<rparr>"

subsection \<open>Pattern matching of the store\<close>

text \<open>
  Modelled from the spec: the list query of the store (section 6: a filtered, sorted and
  limited list query that returns a result set or a failure). The store is a hosted service
  and not among the source files; a request is evaluated as the operators that the pages
  name are defined by the query interface of the store.

  The store matches \<open>ilike\<close> patterns as SQL does: \<open>%\<close> stands for any sequence of
  characters, \<open>_\<close> for any single character, a backslash takes the next character
  literally, and every other character stands for itself. In a request \<open>*\<close> is another
  way to write \<open>%\<close>. The comparison ignores the case of the letters A to Z. A pattern that
  ends in a lone backslash matches nothing.
\<close>

fun like :: "string \<Rightarrow> string \<Rightarrow> bool" where
  "like [] s = (s = [])"
| "like (p # ps) s =
     (if p = CHR ''%'' then
        (like ps s \<or> (case s of [] \<Rightarrow> False | c # t \<Rightarrow> like (p # ps) t))
      else if p = CHR ''_'' then
        (case s of [] \<Rightarrow> False | c # t \<Rightarrow> like ps t)
      else if p = CHR 0x5C then
        (case ps of [] \<Rightarrow> False
         | e # es \<Rightarrow> (case s of [] \<Rightarrow> False | c # t \<Rightarrow> c = e \<and> like es t))
      else
        (case s of [] \<Rightarrow> False | c # t \<Rightarrow> c = p \<and> like ps t))"

definition lower :: "char \<Rightarrow> char" where
  "lower c = (let n = (of_char c :: nat) in if 65 \<le> n \<and> n \<le> 90 then char_of (n + 32) else c)"

definition star_to_percent :: "char \<Rightarrow> char" where
  "star_to_percent c = (if c = CHR ''*'' then CHR ''%'' else c)"

definition ilike :: "string \<Rightarrow> string \<Rightarrow> bool" where
  "ilike pattern s = like (map lower (map star_to_percent pattern)) (map lower s)"

subsection \<open>Evaluation of a query\<close>

text \<open>
  The evaluation is generic in the row type: \<open>txt\<close> reads a text column of a row
  (\<open>None\<close> is SQL's NULL, which satisfies no comparison) and \<open>key\<close> reads the
  column of an order clause. The filters of a request are conjoined; the conditions inside
  an \<open>or\<close> are disjoined.
\<close>

fun holds :: "(string \<Rightarrow> 'r \<Rightarrow> string option) \<Rightarrow> 'r \<Rightarrow> condition \<Rightarrow> bool" where
  "holds txt r (Eq column v) = (txt column r = Some v)"
| "holds txt r (Is_null column) = (txt column r = None)"
| "holds txt r (Ilike column pattern) =
     (case txt column r of None \<Rightarrow> False | Some s \<Rightarrow> ilike pattern s)"
| "holds txt r (Or cs) = list_ex (holds txt r) cs"

definition matches :: "(string \<Rightarrow> 'r \<Rightarrow> string option) \<Rightarrow> query \<Rightarrow> 'r \<Rightarrow> bool" where
  "matches txt q r = list_all (holds txt r) (filters q)"

text \<open>
  An order clause sorts by one column, ascending or descending. The store promises nothing
  about rows that agree on the column; here they keep the order in which the table holds
  them (both sorts are stable), and the table is an arbitrary list, so that every order of
  such rows is covered. With several clauses the first one is the most significant.
\<close>

definition sort_desc :: "('r \<Rightarrow> int) \<Rightarrow> 'r list \<Rightarrow> 'r list" where
  "sort_desc k rows = rev (sort_key k (rev rows))"

definition apply_order :: "(string \<Rightarrow> 'r \<Rightarrow> int) \<Rightarrow> (string \<times> bool) \<Rightarrow> 'r list \<Rightarrow> 'r list" where
  "apply_order key clause rows =
     (if snd clause then sort_key (key (fst clause)) rows else sort_desc (key (fst clause)) rows)"

definition apply_limit :: "nat option \<Rightarrow> 'r list \<Rightarrow> 'r list" where
  "apply_limit l rows = (case l of None \<Rightarrow> rows | Some n \<Rightarrow> take n rows)"

definition run_query ::
  "(string \<Rightarrow> 'r \<Rightarrow> string option) \<Rightarrow> (string \<Rightarrow> 'r \<Rightarrow> int) \<Rightarrow> query \<Rightarrow> 'r list \<Rightarrow> 'r list" where
  "run_query txt key q rows =
     apply_limit (row_limit q) (foldr (apply_order key) (ordering q) (filter (matches txt q) rows))"

text \<open>The columns of the two tables that the queries of the home page name.\<close>

definition product_text :: "string \<Rightarrow> product \<Rightarrow> string option" where
  "product_text column p =
     (if column = ''status'' then Some (status p)
      else if column = ''category_id'' then category_id p
      else if column = ''title'' then Some (title p)
      else if column = ''description'' then Some (description p)
      else if column = ''id'' then Some (id' p)
      else None)"

definition product_key :: "string \<Rightarrow> product \<Rightarrow> int" where
  "product_key column p =
     (if column = ''created_at'' then created_at p
      else if column = ''updated_at'' then updated_at p
      else 0)"

definition category_text :: "string \<Rightarrow> category_row \<Rightarrow> string option" where
  "category_text column c =
     (if column = ''parent_id'' then parent_id c
      else if column = ''id'' then Some (cat_id c)
      else if column = ''name'' then Some (cat_name c)
      else None)"

definition category_key :: "string \<Rightarrow> category_row \<Rightarrow> int" where
  "category_key column c = (if column = ''display_order'' then display_order c else 0)"

text \<open>
  The backend holds the two tables. A request to a backend that cannot be reached fails;
  the client library then returns no data and an error object, it does not throw.
\<close>

record backend =
  reachable :: bool
  product_rows :: "product list"
  category_rows :: "category_row list"

definition select_products :: "backend \<Rightarrow> query \<Rightarrow> store_error + product list" where
  "select_products b q =
     (if reachable b then Inr (run_query product_text product_key q (product_rows b))
      else Inl RepositoryUnavailable)"

definition select_categories :: "backend \<Rightarrow> query \<Rightarrow> store_error + category_row list" where
  "select_categories b q =
     (if reachable b then Inr (run_query category_text category_key q (category_rows b))
      else Inl RepositoryUnavailable)"

section \<open>The home page\<close>

record home_state =
  categories :: "category_row list"
  products :: "product list"
  loading :: bool
  selectedCategory :: "string option"
  searchQuery :: string

definition init_home :: home_state where
  "init_home = \<lparr>categories = [], products = [], loading = True,
                 selectedCategory = None, searchQuery = []\<rparr>"

text \<open>
  \<open>loadCategories\<close>: the top-level categories in display order. The state is changed
  only when the response carries data; the error of the response is not read.
\<close>

definition categories_query :: query where
  "categories_query = order_by ''display_order'' True (is_null ''parent_id'' (from_table ''categories''))"

definition loadCategories :: "backend \<Rightarrow> home_state \<Rightarrow> home_state" where
  "loadCategories b st =
     (case select_categories b categories_query of
        Inr data \<Rightarrow> st\<lparr>categories := data\<rparr>
      | Inl err \<Rightarrow> st)"

text \<open>
  \<open>loadProducts\<close>: the request is built from the selected category and the search text.
  A selected category that is null or the empty string adds no filter, and neither does an
  empty search text (both are tested for truthiness). The search text is pasted between two
  \<open>%\<close> into the patterns for the title and for the description. The embedded seller
  summary of the select list is for display and does not filter rows.
\<close>

definition products_query :: "string option \<Rightarrow> string \<Rightarrow> query" where
  "products_query selected search =
     (let query = limit_to 50 (order_by ''created_at'' False
                    (eq ''status'' ''active'' (from_table ''products'')));
          query = (case selected of
                     None \<Rightarrow> query
                   | Some c \<Rightarrow> if c \<noteq> [] then eq ''category_id'' c query else query);
          query = (if search \<noteq> [] then
                     or_filter [Ilike ''title'' (''%'' @ search @ ''%''),
                                Ilike ''description'' (''%'' @ search @ ''%'')] query
                   else query)
      in query)"

definition loadProducts :: "backend \<Rightarrow> home_state \<Rightarrow> home_state" where
  "loadProducts b st =
     (case select_products b (products_query (selectedCategory st) (searchQuery st)) of
        Inr data \<Rightarrow> st\<lparr>products := data, loading := False\<rparr>
      | Inl err \<Rightarrow> st\<lparr>loading := False\<rparr>)"

text \<open>
  The membership condition and the order of the product list as the specification words
  them (section 4.2): status active; the selected category, when one is selected; the
  search text, when it is not empty, contained in the title or in the description, letter
  case ignored; newest first, equal creation times by ascending identifier.
\<close>

definition contains_ci :: "string \<Rightarrow> string \<Rightarrow> bool" where
  "contains_ci q s = sublist (map lower q) (map lower s)"

definition listed :: "string option \<Rightarrow> string \<Rightarrow> product \<Rightarrow> bool" where
  "listed selected search p =
     (status p = ''active''
      \<and> (case selected of None \<Rightarrow> True | Some c \<Rightarrow> c = [] \<or> category_id p = Some c)
      \<and> (search = [] \<or> contains_ci search (title p) \<or> contains_ci search (description p)))"

definition newest_first :: "product \<Rightarrow> product \<Rightarrow> bool" where
  "newest_first a b = (created_at b \<le> created_at a)"

definition newest_first_then_id :: "product \<Rightarrow> product \<Rightarrow> bool" where
  "newest_first_then_id a b =
     (created_at b < created_at a \<or> (created_at a = created_at b \<and> id' a \<le> id' b))"

text \<open>
  A search text is plain when it has none of the characters that the request syntax or the
  pattern matcher of the store reads specially: the wildcards \<open>%\<close>, \<open>_\<close> and \<open>*\<close>, the
  backslash, and the comma and the parentheses that delimit the conditions of an
  \<open>or\<close>. The page pastes the search text into the request as it is.
\<close>

definition plain_char :: "char \<Rightarrow> bool" where
  "plain_char c =
     (c \<noteq> CHR ''%'' \<and> c \<noteq> CHR ''_'' \<and> c \<noteq> CHR ''*'' \<and> c \<noteq> CHR 0x5C
      \<and> c \<noteq> CHR '','' \<and> c \<noteq> CHR ''('' \<and> c \<noteq> CHR '')'')"

definition plain_text :: "string \<Rightarrow> bool" where
  "plain_text q = list_all plain_char q"

definition literal_char :: "char \<Rightarrow> bool" where
  "literal_char c = (c \<noteq> CHR ''%'' \<and> c \<noteq> CHR ''_'' \<and> c \<noteq> CHR 0x5C)"

section \<open>The product form\<close>

record form_data =
  form_title :: string
  form_description :: string
  form_price :: string
  form_category :: string
  form_stock_count :: string
  form_condition :: string
  form_images :: "string list"

datatype message_type = success | error

record form_state =
  formData :: form_data
  imageInput :: string
  submitting :: bool
  message :: "(message_type \<times> string) option"

definition init_form :: form_state where
  "init_form =
     \<lparr>formData = \<lparr>form_title = [], form_description = [], form_price = [], form_category = [],
                   form_stock_count = [], form_condition = ''new'', form_images = []\<rparr>,
      imageInput = [], submitting = False, message = None\<rparr>"

subsection \<open>The image list\<close>

text \<open>
  \<open>trim\<close> removes white space and line terminators at both ends. Among the 8-bit
  characters these are the tab, the line feed, the vertical tab, the form feed and the
  carriage return (9 to 13), the space (32) and the no-break space (160).
\<close>

definition is_space :: "char \<Rightarrow> bool" where
  "is_space c =
     (let n = (of_char c :: nat) in n = 32 \<or> (9 \<le> n \<and> n \<le> 13) \<or> n = 160)"

definition trim :: "string \<Rightarrow> string" where
  "trim s = rev (dropWhile is_space (rev (dropWhile is_space s)))"

definition addImage :: "form_state \<Rightarrow> form_state" where
  "addImage st =
     (if trim (imageInput st) \<noteq> [] \<and> length (form_images (formData st)) < 5 then
        st\<lparr>formData := (formData st)\<lparr>form_images := form_images (formData st) @ [imageInput st]\<rparr>,
           imageInput := []\<rparr>
      else st)"

text \<open>
  \<open>removeImage\<close> keeps the entries whose position differs from the index. The index is
  a number; one that is no position of the list removes nothing.
\<close>

definition removeImage :: "int \<Rightarrow> form_state \<Rightarrow> form_state" where
  "removeImage index st =
     st\<lparr>formData := (formData st)\<lparr>form_images :=
          map snd (filter (\<lambda>(i, img). int i \<noteq> index) (enumerate 0 (form_images (formData st))))\<rparr>\<rparr>"

text \<open>
  The events on the image part of the form: typing into the input field, the Add button
  (or the Enter key), and the remove button of an image.
\<close>

datatype form_event = SetImageInput string | AddImage | RemoveImage int

fun form_step :: "form_state \<Rightarrow> form_event \<Rightarrow> form_state" where
  "form_step st (SetImageInput s) = st\<lparr>imageInput := s\<rparr>"
| "form_step st AddImage = addImage st"
| "form_step st (RemoveImage i) = removeImage i st"

definition run_form :: "form_event list \<Rightarrow> form_state \<Rightarrow> form_state" where
  "run_form evs st = foldl form_step st evs"

subsection \<open>Submitting the form\<close>

record profile =
  profile_id :: string
  role :: string

text \<open>The object \<open>productData\<close> and the object passed to \<open>insert\<close>, which extends it.\<close>

record product_data =
  new_title :: string
  new_description :: string
  new_price :: number
  new_category :: string
  new_stock_count :: number
  new_condition :: string
  new_images :: "string list"
  new_updated_at :: timestamp

record insert_data = product_data +
  new_seller_id :: string
  new_status :: string

datatype request = Update product_data string | Insert insert_data

definition productData :: "form_data \<Rightarrow> timestamp \<Rightarrow> product_data" where
  "productData fd now =
     \<lparr>new_title = form_title fd,
      new_description = form_description fd,
      new_price = parseFloat (form_price fd),
      new_category = form_category fd,
      new_stock_count = parseInt (form_stock_count fd),
      new_condition = form_condition fd,
      new_images = form_images fd,
      new_updated_at = now\<rparr>"

text \<open>
  The store call that \<open>handleSubmit\<close> issues: none without a profile, an update of the
  row with the identifier \<open>productId\<close> when the page has one (a non-empty string), an
  insert otherwise.
\<close>

definition submit_request :: "profile option \<Rightarrow> string option \<Rightarrow> timestamp \<Rightarrow> form_data \<Rightarrow> request option" where
  "submit_request prof productId now fd =
     (case prof of
        None \<Rightarrow> None
      | Some pr \<Rightarrow>
          (case productId of
             Some pid \<Rightarrow>
               if pid \<noteq> [] then Some (Update (productData fd now) pid)
               else Some (Insert (product_data.extend (productData fd now)
                                    (insert_data.fields (profile_id pr) ''active'')))
           | None \<Rightarrow> Some (Insert (product_data.extend (productData fd now)
                                    (insert_data.fields (profile_id pr) ''active'')))))"

subsection \<open>The store: writes\<close>

text \<open>
  Modelled from the spec: the write side of the store (its schema, column defaults and
  access rules are not among the source files). Section 4.3: an update requires the seller
  of the session to be the owner of the product (\<open>Forbidden\<close> otherwise), fails with
  \<open>NotFound\<close> when no product has the identifier, and changes the columns of the request
  in that row; a create assigns a new identifier and the creation time, and persists one
  row; a write either persists the full record or changes nothing.
\<close>

definition apply_update :: "product_data \<Rightarrow> product \<Rightarrow> product" where
  "apply_update d r =
     r\<lparr>title := new_title d, description := new_description d, price := new_price d,
       category := new_category d, stock_count := new_stock_count d,
       condition := new_condition d, images := new_images d, updated_at := new_updated_at d\<rparr>"

definition fresh_id :: "product list \<Rightarrow> string" where
  "fresh_id rows = replicate (Suc (foldr max (map (\<lambda>r. length (id' r)) rows) 0)) CHR ''0''"

definition new_row :: "string \<Rightarrow> timestamp \<Rightarrow> insert_data \<Rightarrow> product" where
  "new_row i now d =
     \<lparr>id' = i, seller_id = new_seller_id d, title = new_title d,
      description = new_description d, price = new_price d, category = new_category d,
      category_id = None, stock_count = new_stock_count d, condition = new_condition d,
      images = new_images d, status = new_status d, created_at = now,
      updated_at = new_updated_at d\<rparr>"

definition store_update :: "string \<Rightarrow> product_data \<Rightarrow> string \<Rightarrow> backend \<Rightarrow> store_error + backend" where
  "store_update seller d pid b =
     (if \<not> reachable b then Inl RepositoryUnavailable
      else case find (\<lambda>r. id' r = pid) (product_rows b) of
             None \<Rightarrow> Inl NotFound
           | Some r \<Rightarrow>
               if seller_id r \<noteq> seller then Inl Forbidden
               else Inr (b\<lparr>product_rows :=
                           map (\<lambda>r. if id' r = pid then apply_update d r else r) (product_rows b)\<rparr>))"

definition store_insert :: "timestamp \<Rightarrow> insert_data \<Rightarrow> backend \<Rightarrow> store_error + backend" where
  "store_insert now d b =
     (if \<not> reachable b then Inl RepositoryUnavailable
      else Inr (b\<lparr>product_rows := product_rows b @ [new_row (fresh_id (product_rows b)) now d]\<rparr>))"

text \<open>
  Modelled from the spec: the message of a store error, a human-readable summary of the
  failure (section 4.3).
\<close>

fun error_message :: "store_error \<Rightarrow> string" where
  "error_message ValidationFailed = ''Validation failed''"
| "error_message NotFound = ''Product not found''"
| "error_message Forbidden = ''Forbidden''"
| "error_message RepositoryUnavailable = ''Repository unavailable''"
| "error_message WriteConflict = ''Write conflict''"

text \<open>
  The store runs a request on behalf of the seller of the session at the time \<open>now\<close>.
\<close>

fun perform :: "string \<Rightarrow> timestamp \<Rightarrow> request \<Rightarrow> backend \<Rightarrow> store_error + backend" where
  "perform seller now (Update d pid) b = store_update seller d pid b"
| "perform seller now (Insert d) b = store_insert now d b"

text \<open>
  \<open>handleSubmit\<close>: without a profile nothing happens. Otherwise the request is sent; an
  error of the response is thrown and caught, and its message (or a fixed text when the
  message is empty) is shown; a response without error shows the success message. The
  form data is sent as it is: the function checks none of its fields.
\<close>

definition handleSubmit ::
  "profile option \<Rightarrow> string option \<Rightarrow> timestamp \<Rightarrow> backend \<times> form_state \<Rightarrow> backend \<times> form_state" where
  "handleSubmit prof productId now bs =
     (case bs of (b, st) \<Rightarrow>
        (case prof of
           None \<Rightarrow> (b, st)
         | Some pr \<Rightarrow>
             (case submit_request prof productId now (formData st) of
                None \<Rightarrow> (b, st)
              | Some req \<Rightarrow>
                  (case perform (profile_id pr) now req b of
                     Inl err \<Rightarrow>
                       (b, st\<lparr>submitting := False,
                              message := Some (error,
                                if error_message err \<noteq> [] then error_message err
                                else ''Failed to save product'')\<rparr>)
                   | Inr b' \<Rightarrow>
                       (b', st\<lparr>submitting := False,
                               message := Some (success,
                                 case req of
                                   Update d pid \<Rightarrow> ''Product updated successfully!''
                                 | Insert d \<Rightarrow> ''Product created successfully!'')\<rparr>)))))"

section \<open>Example rows and states\<close>

text \<open>Concrete rows, tables and page states at which the theorems below are instantiated.\<close>

definition sample_product :: "string \<Rightarrow> timestamp \<Rightarrow> product" where
  "sample_product i t =
     \<lparr>id' = i, seller_id = ''S1'', title = ''Phone'', description = ''A phone'',
      price = parseFloat ''150.50'', category = ''electronics'', category_id = Some ''c1'',
      stock_count = parseInt ''3'', condition = ''new'', images = [], status = ''active'',
      created_at = t, updated_at = t\<rparr>"

definition two_rows_backend :: backend where
  "two_rows_backend =
     \<lparr>reachable = True,
      product_rows = [sample_product ''b'' 1, sample_product ''a'' 1],
      category_rows = []\<rparr>"

definition fifty_one_backend :: backend where
  "fifty_one_backend =
     \<lparr>reachable = True,
      product_rows = map (\<lambda>n. sample_product (replicate n CHR ''a'') 0) [0..<51],
      category_rows = []\<rparr>"

definition empty_backend :: backend where
  "empty_backend = \<lparr>reachable = True, product_rows = [], category_rows = []\<rparr>"

definition unreachable_backend :: backend where
  "unreachable_backend = \<lparr>reachable = False, product_rows = [], category_rows = []\<rparr>"

definition categories_backend :: backend where
  "categories_backend =
     \<lparr>reachable = True, product_rows = [],
      category_rows =
        [\<lparr>cat_id = ''c2'', cat_name = ''Fashion'', parent_id = None, display_order = 2\<rparr>,
         \<lparr>cat_id = ''c3'', cat_name = ''Phones'', parent_id = Some ''c1'', display_order = 0\<rparr>,
         \<lparr>cat_id = ''c1'', cat_name = ''Electronics'', parent_id = None, display_order = 1\<rparr>]\<rparr>"

definition phone_search :: home_state where
  "phone_search = init_home\<lparr>searchQuery := ''phone''\<rparr>"

definition phone_draft :: form_state where
  "phone_draft = init_form\<lparr>formData :=
     \<lparr>form_title = ''Phone'', form_description = ''A phone'', form_price = ''150.50'',
      form_category = ''electronics'', form_stock_count = ''3'', form_condition = ''new'',
      form_images = []\<rparr>\<rparr>"

definition six_images_draft :: form_state where
  "six_images_draft = init_form\<lparr>formData :=
     \<lparr>form_title = ''Phone'', form_description = ''A phone'', form_price = ''150.50'',
      form_category = ''electronics'', form_stock_count = ''3'', form_condition = ''new'',
      form_images = [''u1'', ''u2'', ''u3'', ''u4'', ''u5'', ''u6'']\<rparr>\<rparr>"

definition seven_adds :: "form_event list" where
  "seven_adds = concat (replicate 7 [SetImageInput ''u'', AddImage])"

definition three_images_form :: form_state where
  "three_images_form =
     run_form [SetImageInput ''u1'', AddImage, SetImageInput ''u2'', AddImage,
               SetImageInput ''u3'', AddImage, SetImageInput [CHR 0x20, CHR 0xA0, CHR 0x09]] init_form"

definition edited_draft :: form_state where
  "edited_draft = init_form\<lparr>formData :=
     \<lparr>form_title = ''Phone case'', form_description = ''A case'', form_price = ''20'',
      form_category = ''electronics'', form_stock_count = ''5'', form_condition = ''good'',
      form_images = [''u1'']\<rparr>\<rparr>"

definition seller_S1 :: profile where
  "seller_S1 = \<lparr>profile_id = ''S1'', role = ''seller''\<rparr>"

definition seller_S2 :: profile where
  "seller_S2 = \<lparr>profile_id = ''S2'', role = ''seller''\<rparr>"

section \<open>Properties of the product list\<close>

subsection \<open>The request that the home page builds\<close>

lemma products_query_limit: "row_limit (products_query sel q) = Some 50"
  by (simp add: products_query_def Let_def limit_to_def order_by_def eq_def or_filter_def
      from_table_def split: option.splits)

lemma products_query_ordering: "ordering (products_query sel q) = [(''created_at'', False)]"
  by (simp add: products_query_def Let_def limit_to_def order_by_def eq_def or_filter_def
      from_table_def split: option.splits)

lemma products_query_filters:
  "filters (products_query sel q) =
     [Eq ''status'' ''active'']
     @ (case sel of None \<Rightarrow> [] | Some c \<Rightarrow> if c \<noteq> [] then [Eq ''category_id'' c] else [])
     @ (if q \<noteq> [] then [Or [Ilike ''title'' (''%'' @ q @ ''%''),
                                Ilike ''description'' (''%'' @ q @ ''%'')]] else [])"
  by (simp add: products_query_def Let_def limit_to_def order_by_def eq_def or_filter_def
      from_table_def split: option.splits)

lemma sorted_wrt_sort_desc: "sorted_wrt (\<lambda>a b. k b \<le> k a) (sort_desc k rows)"
proof -
  have "sorted (map k (sort_key k (rev rows)))"
    by (rule sorted_sort_key)
  then have "sorted_wrt (\<lambda>a b. k a \<le> k b) (sort_key k (rev rows))"
    by (simp add: sorted_map)
  then show ?thesis
    by (simp add: sort_desc_def sorted_wrt_rev)
qed

lemma set_sort_desc: "set (sort_desc k rows) = set rows"
  by (simp add: sort_desc_def)

lemma length_sort_desc: "length (sort_desc k rows) = length rows"
  by (simp add: sort_desc_def)

lemma run_products_query:
  "run_query product_text product_key (products_query sel q) rows =
     take 50 (sort_desc created_at (filter (matches product_text (products_query sel q)) rows))"
  by (simp add: run_query_def products_query_limit products_query_ordering apply_limit_def
      apply_order_def product_key_def[abs_def])

lemma loadProducts_reachable:
  "reachable b \<Longrightarrow>
   products (loadProducts b st) =
     take 50 (sort_desc created_at
       (filter (matches product_text (products_query (selectedCategory st) (searchQuery st)))
          (product_rows b)))"
  by (simp add: loadProducts_def select_products_def run_products_query)

lemma loadProducts_unreachable: "\<not> reachable b \<Longrightarrow> loadProducts b st = st\<lparr>loading := False\<rparr>"
  by (simp add: loadProducts_def select_products_def)

subsection \<open>Size and order of the result\<close>

text \<open>
  C1, as the code has it. Whatever category is selected and whatever the search text is,
  when the store answers, the list that \<open>loadProducts\<close> puts into the page has at most 50
  products and is ordered by creation time, newest first. The request has the single order
  clause \<open>created_at\<close> descending: it asks for no order among products of equal creation
  time.
\<close>

theorem loadProducts_at_most_50_newest_first:
  assumes "reachable b"
  shows "length (products (loadProducts b st)) \<le> 50
         \<and> sorted_wrt newest_first (products (loadProducts b st))"
proof -
  have "sorted_wrt (\<lambda>a b. created_at b \<le> created_at a)
          (sort_desc created_at
             (filter (matches product_text (products_query (selectedCategory st) (searchQuery st)))
                (product_rows b)))"
    by (rule sorted_wrt_sort_desc)
  then have "sorted_wrt newest_first (products (loadProducts b st))"
    unfolding loadProducts_reachable[OF assms] newest_first_def[abs_def]
    by (rule sorted_wrt_take)
  then show ?thesis
    by (simp add: loadProducts_reachable[OF assms])
qed

theorem loadProducts_at_most_50_newest_first_witness:
  "reachable two_rows_backend
   \<and> length (products (loadProducts two_rows_backend init_home)) \<le> 50
   \<and> sorted_wrt newest_first (products (loadProducts two_rows_backend init_home))"
  using loadProducts_at_most_50_newest_first[of two_rows_backend init_home]
  by (simp add: two_rows_backend_def)

text \<open>
  C1 as the specification states it asks that products of equal creation time come by
  ascending identifier. A table that holds the product \<open>b\<close> before the product \<open>a\<close>, both
  created at time 1, is listed in that order.
\<close>

lemma two_rows_loaded:
  "products (loadProducts two_rows_backend init_home) =
     [sample_product ''b'' 1, sample_product ''a'' 1]"
  by (simp add: loadProducts_reachable two_rows_backend_def init_home_def matches_def
      products_query_filters product_text_def sample_product_def sort_desc_def)

theorem loadProducts_ties_counterexample:
  "\<not> sorted_wrt newest_first_then_id (products (loadProducts two_rows_backend init_home))"
  by (simp add: two_rows_loaded newest_first_then_id_def sample_product_def)

subsection \<open>Pattern matching\<close>

lemma like_percent_all: "like ''%'' s"
  by (induction s) auto

lemma like_percent: "like (CHR ''%'' # ps) s \<longleftrightarrow> (\<exists>pre t. s = pre @ t \<and> like ps t)"
proof (induction s)
  case Nil
  then show ?case by simp
next
  case (Cons c s)
  have "like (CHR ''%'' # ps) (c # s) \<longleftrightarrow> like ps (c # s) \<or> like (CHR ''%'' # ps) s"
    by simp
  also have "\<dots> \<longleftrightarrow> like ps (c # s) \<or> (\<exists>pre t. s = pre @ t \<and> like ps t)"
    using Cons.IH by simp
  also have "\<dots> \<longleftrightarrow> (\<exists>pre t. c # s = pre @ t \<and> like ps t)"
    by (auto simp: Cons_eq_append_conv)
  finally show ?case .
qed

lemma like_literal_prefix:
  "list_all literal_char p \<Longrightarrow> like (p @ rest) s \<longleftrightarrow> (\<exists>t. s = p @ t \<and> like rest t)"
proof (induction p arbitrary: s)
  case Nil
  then show ?case by simp
next
  case (Cons a p)
  from Cons.prems have a: "a \<noteq> CHR ''%''" "a \<noteq> CHR ''_''" "a \<noteq> CHR 0x5C"
    by (simp_all add: literal_char_def)
  from Cons.prems have p: "list_all literal_char p"
    by simp
  show ?case
  proof (cases s)
    case Nil
    then show ?thesis using a by simp
  next
    case (Cons c t)
    then show ?thesis using a Cons.IH[OF p, of t] by auto
  qed
qed

lemma like_contains:
  assumes "list_all literal_char p"
  shows "like (CHR ''%'' # p @ ''%'') s \<longleftrightarrow> sublist p s"
proof -
  have "like (CHR ''%'' # p @ ''%'') s \<longleftrightarrow> (\<exists>pre t. s = pre @ t \<and> like (p @ ''%'') t)"
    by (rule like_percent)
  also have "\<dots> \<longleftrightarrow> (\<exists>pre t. s = pre @ t \<and> (\<exists>post. t = p @ post))"
    using like_literal_prefix[OF assms, of "''%''"] like_percent_all by simp
  also have "\<dots> \<longleftrightarrow> sublist p s"
    by (auto simp: sublist_def)
  finally show ?thesis .
qed

lemma of_char_lower:
  "(of_char (lower c) :: nat) =
     (if 65 \<le> (of_char c :: nat) \<and> (of_char c :: nat) \<le> 90 then of_char c + 32 else of_char c)"
  by (simp add: lower_def Let_def)

lemma lower_literal:
  assumes "plain_char c"
  shows "literal_char (lower c)"
proof -
  have e: "\<And>d. (lower c = d) \<longleftrightarrow> ((of_char (lower c) :: nat) = of_char d)"
    by (metis char_of_char)
  have e2: "\<And>d. (c = d) \<longleftrightarrow> ((of_char c :: nat) = of_char d)"
    by (metis char_of_char)
  show ?thesis
    using assms unfolding literal_char_def plain_char_def e e2 of_char_lower
    by (auto split: if_splits)
qed

lemma star_plain: "plain_char c \<Longrightarrow> star_to_percent c = c"
  by (simp add: plain_char_def star_to_percent_def)

text \<open>A plain search text between two \<open>%\<close> is matched by the texts that contain it.\<close>

lemma ilike_contains:
  assumes "plain_text q"
  shows "ilike (CHR ''%'' # q @ ''%'') s \<longleftrightarrow> contains_ci q s"
proof -
  have 1: "map star_to_percent q = q"
    using assms by (simp add: plain_text_def list_all_iff star_plain map_idI)
  have 2: "list_all literal_char (map lower q)"
    using assms by (simp add: plain_text_def list_all_iff lower_literal)
  have 3: "lower CHR ''%'' = CHR ''%''"
    by (simp add: lower_def)
  have 4: "star_to_percent CHR ''%'' = CHR ''%''"
    by (simp add: star_to_percent_def)
  have "ilike (CHR ''%'' # q @ ''%'') s \<longleftrightarrow> like (CHR ''%'' # map lower q @ ''%'') (map lower s)"
    by (simp add: ilike_def 1 3 4)
  then show ?thesis
    using like_contains[OF 2] by (simp add: contains_ci_def)
qed

subsection \<open>Membership\<close>

lemma product_text_simps:
  "product_text ''status'' p = Some (status p)"
  "product_text ''category_id'' p = category_id p"
  "product_text ''title'' p = Some (title p)"
  "product_text ''description'' p = Some (description p)"
  by (simp_all add: product_text_def)

lemma matches_products_query_parts:
  "matches product_text (products_query sel q) p \<longleftrightarrow>
     holds product_text p (Eq ''status'' ''active'')
     \<and> (case sel of None \<Rightarrow> True
         | Some c \<Rightarrow> c = [] \<or> holds product_text p (Eq ''category_id'' c))
     \<and> (q = [] \<or> holds product_text p (Or [Ilike ''title'' (''%'' @ q @ ''%''),
                                               Ilike ''description'' (''%'' @ q @ ''%'')]))"
  by (cases sel) (simp_all add: matches_def products_query_filters del: holds.simps)

lemma matches_products_query:
  assumes "plain_text q"
  shows "matches product_text (products_query sel q) p \<longleftrightarrow> listed sel q p"
  by (cases sel)
     (auto simp: matches_products_query_parts listed_def product_text_simps
        ilike_contains[OF assms])

text \<open>
  C2, as the code has it. When the store answers and the search text is plain, the list
  that \<open>loadProducts\<close> puts into the page consists of the first 50, newest first, of the
  products that are active, have the selected category (when a non-empty one is selected)
  and contain the search text (when it is not empty) in the title or in the description,
  letter case ignored. When at most 50 products satisfy this condition, a product is in
  the list exactly when it satisfies it.
\<close>

theorem loadProducts_membership:
  assumes "reachable b" and "plain_text (searchQuery st)"
  shows "products (loadProducts b st) =
           take 50 (sort_desc created_at
             (filter (listed (selectedCategory st) (searchQuery st)) (product_rows b)))
         \<and> (length (filter (listed (selectedCategory st) (searchQuery st)) (product_rows b)) \<le> 50
              \<longrightarrow> set (products (loadProducts b st)) =
                    {p \<in> set (product_rows b). listed (selectedCategory st) (searchQuery st) p})"
proof -
  have m: "matches product_text (products_query (selectedCategory st) (searchQuery st)) =
           listed (selectedCategory st) (searchQuery st)"
    using matches_products_query[OF assms(2)] by blast
  have 1: "products (loadProducts b st) =
           take 50 (sort_desc created_at
             (filter (listed (selectedCategory st) (searchQuery st)) (product_rows b)))"
    by (simp add: loadProducts_reachable[OF assms(1)] m)
  then show ?thesis
    by (simp add: length_sort_desc set_sort_desc)
qed

lemma phone_in_sample: "listed None ''phone'' (sample_product i t)"
proof -
  have "contains_ci ''phone'' ''Phone''"
    by code_simp
  then show ?thesis
    by (simp add: listed_def sample_product_def)
qed

theorem loadProducts_membership_witness:
  "reachable two_rows_backend
   \<and> plain_text (searchQuery phone_search)
   \<and> length (filter (listed (selectedCategory phone_search) (searchQuery phone_search))
               (product_rows two_rows_backend)) \<le> 50
   \<and> products (loadProducts two_rows_backend phone_search) =
       [sample_product ''b'' 1, sample_product ''a'' 1]
   \<and> set (products (loadProducts two_rows_backend phone_search)) =
       {p \<in> set (product_rows two_rows_backend).
          listed (selectedCategory phone_search) (searchQuery phone_search) p}"
proof -
  have r: "reachable two_rows_backend"
    by (simp add: two_rows_backend_def)
  have p: "plain_text (searchQuery phone_search)"
    by (simp add: phone_search_def plain_text_def plain_char_def)
  have f: "filter (listed (selectedCategory phone_search) (searchQuery phone_search))
             (product_rows two_rows_backend) = [sample_product ''b'' 1, sample_product ''a'' 1]"
    by (simp add: phone_search_def init_home_def two_rows_backend_def phone_in_sample)
  have l: "length (filter (listed (selectedCategory phone_search) (searchQuery phone_search))
             (product_rows two_rows_backend)) \<le> 50"
    unfolding f by simp
  have k: "sort_desc created_at [sample_product ''b'' 1, sample_product ''a'' 1]
           = [sample_product ''b'' 1, sample_product ''a'' 1]"
    by (simp add: sort_desc_def sample_product_def)
  from loadProducts_membership[OF r p]
  have a: "products (loadProducts two_rows_backend phone_search) =
             take 50 (sort_desc created_at
               (filter (listed (selectedCategory phone_search) (searchQuery phone_search))
                  (product_rows two_rows_backend)))"
    and b: "length (filter (listed (selectedCategory phone_search) (searchQuery phone_search))
                      (product_rows two_rows_backend)) \<le> 50
            \<longrightarrow> set (products (loadProducts two_rows_backend phone_search)) =
                  {p \<in> set (product_rows two_rows_backend).
                     listed (selectedCategory phone_search) (searchQuery phone_search) p}"
    by blast+
  from a have a': "products (loadProducts two_rows_backend phone_search) =
                     [sample_product ''b'' 1, sample_product ''a'' 1]"
    unfolding f k by simp
  from b l have b': "set (products (loadProducts two_rows_backend phone_search)) =
                  {p \<in> set (product_rows two_rows_backend).
                     listed (selectedCategory phone_search) (searchQuery phone_search) p}"
    by blast
  from r p l a' b' show ?thesis
    by blast
qed

text \<open>
  C2 as the specification states it makes every product that satisfies the condition a
  member of the list. Of 51 active products the page lists 50.
\<close>

theorem loadProducts_limit_counterexample:
  "listed None [] (sample_product (replicate 50 CHR ''a'') 0)
   \<and> sample_product (replicate 50 CHR ''a'') 0 \<in> set (product_rows fifty_one_backend)
   \<and> sample_product (replicate 50 CHR ''a'') 0
       \<notin> set (products (loadProducts fifty_one_backend init_home))"
proof -
  have 1: "listed None [] (sample_product (replicate 50 CHR ''a'') 0)"
    by (simp add: listed_def sample_product_def)
  have 2: "sample_product (replicate 50 CHR ''a'') 0 \<in> set (product_rows fifty_one_backend)"
    by (simp add: fifty_one_backend_def)
  have 3: "sample_product (replicate 50 CHR ''a'') 0
             \<notin> set (products (loadProducts fifty_one_backend init_home))"
    by code_simp
  from 1 2 3 show ?thesis by blast
qed

text \<open>
  The search text is a pattern for the store, not a text to be found: the search text
  \<open>_\<close> lists a product whose title and description have no underscore.
\<close>

lemma search_text_is_a_pattern:
  "sample_product ''a'' 1 \<in> set (products (loadProducts two_rows_backend (init_home\<lparr>searchQuery := ''_''\<rparr>)))
   \<and> \<not> listed None ''_'' (sample_product ''a'' 1)"
  by code_simp

subsection \<open>Narrowing\<close>

text \<open>
  C3. Let two filter states be given, the second of which has the category and the search
  text of the first, except that it may select a category where the first selects none and
  may have a search text where the first has none. Then, in every table, the products that
  satisfy the filters of the second request are among those that satisfy the filters of
  the first.
\<close>

theorem adding_filter_narrows:
  assumes "sel1 = sel2 \<or> sel1 = None \<or> sel1 = Some []"
    and "q1 = q2 \<or> q1 = []"
  shows "set (filter (matches product_text (products_query sel2 q2)) rows)
         \<subseteq> set (filter (matches product_text (products_query sel1 q1)) rows)"
proof -
  have "matches product_text (products_query sel1 q1) p"
    if m: "matches product_text (products_query sel2 q2) p" for p
  proof -
    from m have s: "holds product_text p (Eq ''status'' ''active'')"
      and c: "case sel2 of None \<Rightarrow> True
              | Some c \<Rightarrow> c = [] \<or> holds product_text p (Eq ''category_id'' c)"
      and t: "q2 = [] \<or> holds product_text p (Or [Ilike ''title'' (''%'' @ q2 @ ''%''),
                                               Ilike ''description'' (''%'' @ q2 @ ''%'')])"
      unfolding matches_products_query_parts by blast+
    from assms(1) c
    have c1: "case sel1 of None \<Rightarrow> True
              | Some c \<Rightarrow> c = [] \<or> holds product_text p (Eq ''category_id'' c)"
      by (elim disjE) simp_all
    from assms(2) t
    have t1: "q1 = [] \<or> holds product_text p (Or [Ilike ''title'' (''%'' @ q1 @ ''%''),
                                               Ilike ''description'' (''%'' @ q1 @ ''%'')])"
      by (elim disjE) simp_all
    from s c1 t1 show ?thesis
      unfolding matches_products_query_parts by blast
  qed
  then show ?thesis by auto
qed

theorem adding_filter_narrows_witness:
  "set (filter (matches product_text (products_query (Some ''c1'') ''phone'')) (product_rows two_rows_backend))
   \<subseteq> set (filter (matches product_text (products_query None [])) (product_rows two_rows_backend))"
  using adding_filter_narrows[of None "Some ''c1''" "[]" "''phone''" "product_rows two_rows_backend"]
  by simp

subsection \<open>Failure of the backend\<close>

text \<open>
  C8, as the code has it. When the backend cannot be reached, the query fails with
  \<open>RepositoryUnavailable\<close>; \<open>loadProducts\<close> returns normally, switches the loading
  indicator off and changes nothing else: the error is not passed on, and the product list
  of the page stays what it was, which is the empty list when nothing was loaded before.
\<close>

theorem loadProducts_failure_keeps_list:
  assumes "\<not> reachable b"
  shows "select_products b (products_query (selectedCategory st) (searchQuery st))
           = Inl RepositoryUnavailable
         \<and> loadProducts b st = st\<lparr>loading := False\<rparr>
         \<and> products (loadProducts b init_home) = []"
  using assms by (simp add: loadProducts_unreachable init_home_def select_products_def)

theorem loadProducts_failure_keeps_list_witness:
  "\<not> reachable unreachable_backend
   \<and> loadProducts unreachable_backend init_home = init_home\<lparr>loading := False\<rparr>
   \<and> products (loadProducts unreachable_backend init_home) = []"
proof -
  have n: "\<not> reachable unreachable_backend"
    by (simp add: unreachable_backend_def)
  from loadProducts_failure_keeps_list[OF n, of init_home] n show ?thesis
    by blast
qed

text \<open>
  C8 as the specification states it lets the page show no results after a failure. A page
  that has loaded two products and then reloads from a backend that cannot be reached
  still shows them.
\<close>

theorem loadProducts_stale_list_counterexample:
  "products (loadProducts unreachable_backend (loadProducts two_rows_backend init_home)) \<noteq> []"
  by (simp add: loadProducts_unreachable unreachable_backend_def two_rows_loaded)

section \<open>Properties of the category list\<close>

lemma run_categories_query:
  "run_query category_text category_key categories_query rows =
     sort_key display_order (filter (\<lambda>c. parent_id c = None) rows)"
proof -
  have "matches category_text categories_query = (\<lambda>c. parent_id c = None)"
    by (rule ext)
       (simp add: matches_def categories_query_def order_by_def is_null_def from_table_def
          category_text_def)
  then show ?thesis
    by (simp add: run_query_def categories_query_def order_by_def is_null_def from_table_def
        apply_limit_def apply_order_def category_key_def[abs_def])
qed

text \<open>
  C9. When the store answers, the categories of the page are exactly the rows of the table
  whose parent identifier is null, in ascending display order. When the backend cannot be
  reached, \<open>loadCategories\<close> returns normally and leaves the page as it was; it runs once,
  when the page is mounted, and then the page has the empty list of categories.
\<close>

theorem loadCategories_top_level_in_display_order:
  "(reachable b \<longrightarrow>
      categories (loadCategories b st) =
        sort_key display_order (filter (\<lambda>c. parent_id c = None) (category_rows b))
      \<and> set (categories (loadCategories b st)) = {c \<in> set (category_rows b). parent_id c = None}
      \<and> sorted (map display_order (categories (loadCategories b st))))
   \<and> (\<not> reachable b \<longrightarrow>
        loadCategories b st = st \<and> categories (loadCategories b init_home) = [])"
  by (auto simp: loadCategories_def select_categories_def run_categories_query init_home_def)

theorem loadCategories_top_level_in_display_order_witness:
  "reachable categories_backend
   \<and> map cat_id (categories (loadCategories categories_backend init_home)) = [''c1'', ''c2'']
   \<and> \<not> reachable unreachable_backend
   \<and> categories (loadCategories unreachable_backend init_home) = []"
proof -
  have r: "reachable categories_backend"
    by (simp add: categories_backend_def)
  have n: "\<not> reachable unreachable_backend"
    by (simp add: unreachable_backend_def)
  from loadCategories_top_level_in_display_order[of categories_backend init_home] r
  have "categories (loadCategories categories_backend init_home) =
          sort_key display_order (filter (\<lambda>c. parent_id c = None) (category_rows categories_backend))"
    by blast
  then have 1: "map cat_id (categories (loadCategories categories_backend init_home)) = [''c1'', ''c2'']"
    by (simp add: categories_backend_def)
  from loadCategories_top_level_in_display_order[of unreachable_backend init_home] n
  have 2: "categories (loadCategories unreachable_backend init_home) = []"
    by blast
  from r n 1 2 show ?thesis
    by blast
qed

section \<open>Properties of the product form\<close>

subsection \<open>The image list\<close>

lemma trim_empty_iff: "trim s = [] \<longleftrightarrow> list_all is_space s"
proof
  assume "trim s = []"
  then have a: "\<forall>c \<in> set (dropWhile is_space s). is_space c"
    by (simp add: trim_def)
  have "dropWhile is_space s = []"
  proof (rule ccontr)
    assume n: "dropWhile is_space s \<noteq> []"
    then have "\<not> is_space (hd (dropWhile is_space s))"
      by (rule hd_dropWhile)
    moreover from n have "hd (dropWhile is_space s) \<in> set (dropWhile is_space s)"
      by simp
    ultimately show False
      using a by blast
  qed
  then show "list_all is_space s"
    by (simp add: list_all_iff)
next
  assume "list_all is_space s"
  then show "trim s = []"
    by (auto simp: trim_def list_all_iff dest: set_dropWhileD)
qed

lemma trim_no_break_space: "trim [CHR 0xA0] = [] \<and> trim [CHR 0x20, CHR 0x0A] = []"
  by (simp add: trim_empty_iff is_space_def)

lemma remove_position:
  "map snd (filter (\<lambda>(i, img). int i \<noteq> index) (enumerate n xs)) =
     (if int n \<le> index \<and> index < int n + int (length xs)
      then take (nat index - n) xs @ drop (Suc (nat index - n)) xs else xs)"
proof (induction xs arbitrary: n)
  case Nil
  then show ?case by simp
next
  case (Cons x xs)
  show ?case
  proof (cases "int n = index")
    case True
    then have "map snd (filter (\<lambda>(i, img). int i \<noteq> index) (enumerate (Suc n) xs)) = xs"
      using Cons.IH[of "Suc n"] by simp
    with True show ?thesis by auto
  next
    case False
    then consider "index < int n" | "int n < index"
      by linarith
    then show ?thesis
    proof cases
      case 1
      then show ?thesis
        using Cons.IH[of "Suc n"] by simp
    next
      case 2
      then have e: "nat index - n = Suc (nat index - Suc n)"
        by linarith
      from 2 show ?thesis
        using Cons.IH[of "Suc n"] by (simp add: e)
    qed
  qed
qed

lemma removeImage_images:
  "form_images (formData (removeImage index st)) =
     (if 0 \<le> index \<and> index < int (length (form_images (formData st)))
      then take (nat index) (form_images (formData st))
           @ drop (Suc (nat index)) (form_images (formData st))
      else form_images (formData st))"
  using remove_position[of index 0 "form_images (formData st)"]
  by (simp add: removeImage_def)

lemma form_step_bounded:
  assumes "length (form_images (formData st)) \<le> 5"
  shows "length (form_images (formData (form_step st ev))) \<le> 5"
proof (cases ev)
  case (SetImageInput s)
  with assms show ?thesis by simp
next
  case AddImage
  with assms show ?thesis by (simp add: addImage_def)
next
  case (RemoveImage i)
  have "length (filter (\<lambda>(j, img). int j \<noteq> i) (enumerate 0 (form_images (formData st))))
          \<le> length (enumerate 0 (form_images (formData st)))"
    by (rule length_filter_le)
  then have "length (form_images (formData (removeImage i st)))
               \<le> length (form_images (formData st))"
    by (simp add: removeImage_def)
  with assms RemoveImage show ?thesis by simp
qed

lemma run_form_bounded:
  "length (form_images (formData st)) \<le> 5 \<Longrightarrow>
   length (form_images (formData (run_form evs st))) \<le> 5"
  unfolding run_form_def
  by (induction evs arbitrary: st) (simp_all add: form_step_bounded)

text \<open>
  C10. Whatever is typed into the image field and whatever images are added and removed,
  starting from the empty form, the image list never has more than 5 entries. \<open>addImage\<close>
  changes nothing when the field is empty or holds white space only, or when the list has
  5 entries (or more). \<open>removeImage\<close> at a position of the list removes the entry at that
  position and keeps the others in their order.
\<close>

theorem image_list_at_most_5:
  "length (form_images (formData (run_form evs init_form))) \<le> 5
   \<and> (list_all is_space (imageInput st) \<or> 5 \<le> length (form_images (formData st))
        \<longrightarrow> addImage st = st)
   \<and> (0 \<le> i \<and> i < int (length (form_images (formData st))) \<longrightarrow>
        removeImage i st =
          st\<lparr>formData := (formData st)\<lparr>form_images :=
               take (nat i) (form_images (formData st))
               @ drop (Suc (nat i)) (form_images (formData st))\<rparr>\<rparr>)"
proof (intro conjI impI)
  show "length (form_images (formData (run_form evs init_form))) \<le> 5"
    by (rule run_form_bounded) (simp add: init_form_def)
next
  assume "list_all is_space (imageInput st) \<or> 5 \<le> length (form_images (formData st))"
  then show "addImage st = st"
    by (auto simp: addImage_def trim_empty_iff)
next
  assume a: "0 \<le> i \<and> i < int (length (form_images (formData st)))"
  have "removeImage i st =
          st\<lparr>formData := (formData st)\<lparr>form_images := form_images (formData (removeImage i st))\<rparr>\<rparr>"
    by (simp add: removeImage_def)
  with a show "removeImage i st =
          st\<lparr>formData := (formData st)\<lparr>form_images :=
               take (nat i) (form_images (formData st))
               @ drop (Suc (nat i)) (form_images (formData st))\<rparr>\<rparr>"
    by (simp add: removeImage_images)
qed

lemma three_images:
  "form_images (formData three_images_form) = [''u1'', ''u2'', ''u3'']
   \<and> imageInput three_images_form = [CHR 0x20, CHR 0xA0, CHR 0x09]"
  unfolding three_images_form_def run_form_def by code_simp

theorem image_list_at_most_5_witness:
  "length (form_images (formData (run_form seven_adds init_form))) \<le> 5
   \<and> form_images (formData (run_form seven_adds init_form)) = [''u'', ''u'', ''u'', ''u'', ''u'']
   \<and> list_all is_space (imageInput three_images_form)
   \<and> addImage three_images_form = three_images_form
   \<and> 0 \<le> (1::int) \<and> 1 < int (length (form_images (formData three_images_form)))
   \<and> form_images (formData (removeImage 1 three_images_form)) = [''u1'', ''u3'']"
proof -
  note t = image_list_at_most_5[of seven_adds three_images_form 1]
  have 1: "form_images (formData (run_form seven_adds init_form)) = [''u'', ''u'', ''u'', ''u'', ''u'']"
    unfolding seven_adds_def run_form_def by code_simp
  have 2: "list_all is_space (imageInput three_images_form)"
    by (simp add: three_images is_space_def)
  have 3: "0 \<le> (1::int) \<and> 1 < int (length (form_images (formData three_images_form)))"
    by (simp add: three_images)
  from t 2 have 4: "addImage three_images_form = three_images_form"
    by blast
  from t 3 have "removeImage 1 three_images_form =
          three_images_form\<lparr>formData := (formData three_images_form)\<lparr>form_images :=
               take (nat 1) (form_images (formData three_images_form))
               @ drop (Suc (nat 1)) (form_images (formData three_images_form))\<rparr>\<rparr>"
    by blast
  then have 5: "form_images (formData (removeImage 1 three_images_form)) = [''u1'', ''u3'']"
    by (simp add: three_images)
  from t 1 2 3 4 5 show ?thesis
    by blast
qed

subsection \<open>Submitting\<close>

lemma handleSubmit_update:
  "pid \<noteq> [] \<Longrightarrow>
   handleSubmit (Some pr) (Some pid) now (b, st) =
     (case store_update (profile_id pr) (productData (formData st) now) pid b of
        Inl err \<Rightarrow> (b, st\<lparr>submitting := False,
                       message := Some (error, if error_message err \<noteq> [] then error_message err
                                               else ''Failed to save product'')\<rparr>)
      | Inr b' \<Rightarrow> (b', st\<lparr>submitting := False,
                       message := Some (success, ''Product updated successfully!'')\<rparr>))"
  by (simp add: handleSubmit_def submit_request_def split: sum.splits)

lemma handleSubmit_insert:
  "handleSubmit (Some pr) None now (b, st) =
     (case store_insert now (product_data.extend (productData (formData st) now)
                               (insert_data.fields (profile_id pr) ''active'')) b of
        Inl err \<Rightarrow> (b, st\<lparr>submitting := False,
                       message := Some (error, if error_message err \<noteq> [] then error_message err
                                               else ''Failed to save product'')\<rparr>)
      | Inr b' \<Rightarrow> (b', st\<lparr>submitting := False,
                       message := Some (success, ''Product created successfully!'')\<rparr>))"
  by (simp add: handleSubmit_def submit_request_def split: sum.splits)

lemma store_update_owner:
  assumes "reachable b" and "find (\<lambda>r. id' r = pid) (product_rows b) = Some r0"
    and "seller_id r0 = seller"
  shows "store_update seller d pid b =
           Inr (b\<lparr>product_rows := map (\<lambda>r. if id' r = pid then apply_update d r else r) (product_rows b)\<rparr>)"
  using assms by (simp add: store_update_def)

lemma store_update_non_owner:
  assumes "reachable b" and "find (\<lambda>r. id' r = pid) (product_rows b) = Some r0"
    and "seller_id r0 \<noteq> seller"
  shows "store_update seller d pid b = Inl Forbidden"
  using assms by (simp add: store_update_def)

text \<open>
  C4. When a seller submits the form for a product that they own, the store holds
  afterwards the same rows, except that the row of the product has the title, description,
  price, category, stock count, condition and images of the form and the time of the
  submission as update time. The identifier, the owner and the creation time of every row
  are what they were.
\<close>

theorem update_by_owner_changes_submitted_fields:
  assumes "pid \<noteq> []" and "reachable b"
    and "find (\<lambda>r. id' r = pid) (product_rows b) = Some r0"
    and "seller_id r0 = profile_id pr"
  shows "product_rows (fst (handleSubmit (Some pr) (Some pid) now (b, st))) =
           map (\<lambda>r. if id' r = pid then
                       r\<lparr>title := form_title (formData st),
                         description := form_description (formData st),
                         price := parseFloat (form_price (formData st)),
                         category := form_category (formData st),
                         stock_count := parseInt (form_stock_count (formData st)),
                         condition := form_condition (formData st),
                         images := form_images (formData st),
                         updated_at := now\<rparr>
                     else r) (product_rows b)
         \<and> map id' (product_rows (fst (handleSubmit (Some pr) (Some pid) now (b, st))))
             = map id' (product_rows b)
         \<and> map seller_id (product_rows (fst (handleSubmit (Some pr) (Some pid) now (b, st))))
             = map seller_id (product_rows b)
         \<and> map created_at (product_rows (fst (handleSubmit (Some pr) (Some pid) now (b, st))))
             = map created_at (product_rows b)"
  by (simp add: handleSubmit_update[OF assms(1)] store_update_owner[OF assms(2,3,4)]
      apply_update_def productData_def comp_def)

lemma two_rows_find_a: "find (\<lambda>r. id' r = ''a'') (product_rows two_rows_backend) = Some (sample_product ''a'' 1)"
  by (simp add: two_rows_backend_def sample_product_def)

theorem update_by_owner_changes_submitted_fields_witness:
  "''a'' \<noteq> []
   \<and> reachable two_rows_backend
   \<and> find (\<lambda>r. id' r = ''a'') (product_rows two_rows_backend) = Some (sample_product ''a'' 1)
   \<and> seller_id (sample_product ''a'' 1) = profile_id seller_S1
   \<and> map updated_at (product_rows (fst (handleSubmit (Some seller_S1) (Some ''a'') 7
                                          (two_rows_backend, edited_draft)))) = [1, 7]
   \<and> map title (product_rows (fst (handleSubmit (Some seller_S1) (Some ''a'') 7
                                     (two_rows_backend, edited_draft)))) = [''Phone'', ''Phone case'']
   \<and> map id' (product_rows (fst (handleSubmit (Some seller_S1) (Some ''a'') 7
                                   (two_rows_backend, edited_draft))))
       = map id' (product_rows two_rows_backend)
   \<and> map seller_id (product_rows (fst (handleSubmit (Some seller_S1) (Some ''a'') 7
                                         (two_rows_backend, edited_draft))))
       = map seller_id (product_rows two_rows_backend)
   \<and> map created_at (product_rows (fst (handleSubmit (Some seller_S1) (Some ''a'') 7
                                          (two_rows_backend, edited_draft))))
       = map created_at (product_rows two_rows_backend)"
proof -
  have 1: "''a'' \<noteq> []"
    by simp
  have 2: "reachable two_rows_backend"
    by (simp add: two_rows_backend_def)
  have 4: "seller_id (sample_product ''a'' 1) = profile_id seller_S1"
    by (simp add: sample_product_def seller_S1_def)
  note t = update_by_owner_changes_submitted_fields[OF 1 2 two_rows_find_a 4, of 7 edited_draft]
  from t have u: "map updated_at (product_rows (fst (handleSubmit (Some seller_S1) (Some ''a'') 7
                                          (two_rows_backend, edited_draft)))) = [1, 7]"
    by (simp add: two_rows_backend_def sample_product_def)
  from t have v: "map title (product_rows (fst (handleSubmit (Some seller_S1) (Some ''a'') 7
                                     (two_rows_backend, edited_draft)))) = [''Phone'', ''Phone case'']"
    by (simp add: two_rows_backend_def sample_product_def edited_draft_def)
  from t u v 1 2 4 two_rows_find_a show ?thesis
    by blast
qed

lemma fresh_id_longer: "r \<in> set rows \<Longrightarrow> length (id' r) < length (fresh_id rows)"
  by (induction rows) (auto simp: fresh_id_def)

lemma fresh_id_new: "fresh_id rows \<notin> id' ` set rows"
  using fresh_id_longer by fastforce

lemma create_succeeds_reachable:
  "message (snd (handleSubmit (Some pr) None now (b, st))) = Some (success, txt) \<Longrightarrow> reachable b"
  by (simp add: handleSubmit_insert store_insert_def split: if_splits)

text \<open>
  C5. When a seller submits the form of a new product and the form reports success, the
  store holds one more row: its identifier is none of the identifiers that the table had,
  its status is \<open>active\<close>, its owner is the seller, and its creation time and its update
  time are the time of the submission. Status, owner and update time are sent by the form;
  identifier and creation time are assigned by the store.
\<close>

theorem create_product_row:
  assumes "message (snd (handleSubmit (Some pr) None now (b, st)))
             = Some (success, ''Product created successfully!'')"
  shows "let p = last (product_rows (fst (handleSubmit (Some pr) None now (b, st)))) in
           product_rows (fst (handleSubmit (Some pr) None now (b, st))) = product_rows b @ [p]
           \<and> id' p \<notin> id' ` set (product_rows b)
           \<and> status p = ''active''
           \<and> seller_id p = profile_id pr
           \<and> created_at p = now
           \<and> updated_at p = now"
proof -
  have r: "reachable b"
    using assms by (rule create_succeeds_reachable)
  show ?thesis
    using fresh_id_new[of "product_rows b"]
    by (simp add: handleSubmit_insert store_insert_def r new_row_def productData_def
        product_data.extend_def insert_data.fields_def Let_def)
qed

lemma phone_created:
  "handleSubmit (Some seller_S1) None 7 (two_rows_backend, phone_draft) =
     (two_rows_backend\<lparr>product_rows :=
        [sample_product ''b'' 1, sample_product ''a'' 1,
         \<lparr>id' = ''00'', seller_id = ''S1'', title = ''Phone'', description = ''A phone'',
          price = parseFloat ''150.50'', category = ''electronics'', category_id = None,
          stock_count = parseInt ''3'', condition = ''new'', images = [], status = ''active'',
          created_at = 7, updated_at = 7\<rparr>]\<rparr>,
      phone_draft\<lparr>submitting := False,
                  message := Some (success, ''Product created successfully!'')\<rparr>)"
  by (simp add: handleSubmit_insert store_insert_def two_rows_backend_def phone_draft_def
      init_form_def new_row_def productData_def product_data.extend_def insert_data.fields_def
      seller_S1_def fresh_id_def sample_product_def)

theorem create_product_row_witness:
  "message (snd (handleSubmit (Some seller_S1) None 7 (two_rows_backend, phone_draft)))
     = Some (success, ''Product created successfully!'')
   \<and> (let p = last (product_rows (fst (handleSubmit (Some seller_S1) None 7
                                          (two_rows_backend, phone_draft)))) in
         product_rows (fst (handleSubmit (Some seller_S1) None 7 (two_rows_backend, phone_draft)))
           = product_rows two_rows_backend @ [p]
         \<and> id' p \<notin> id' ` set (product_rows two_rows_backend)
         \<and> status p = ''active''
         \<and> seller_id p = profile_id seller_S1
         \<and> created_at p = 7
         \<and> updated_at p = 7)"
proof -
  have m: "message (snd (handleSubmit (Some seller_S1) None 7 (two_rows_backend, phone_draft)))
             = Some (success, ''Product created successfully!'')"
    by (simp add: phone_created)
  from create_product_row[OF m] m show ?thesis
    by blast
qed

text \<open>
  C7. When a seller submits the form for a product that another seller owns, the store
  rejects the update as \<open>Forbidden\<close>, the form shows the message of that error, and the
  store is unchanged. The check is the store's: the request of the form names the product
  by its identifier only.
\<close>

theorem update_by_non_owner_forbidden:
  assumes "pid \<noteq> []" and "reachable b"
    and "find (\<lambda>r. id' r = pid) (product_rows b) = Some r0"
    and "seller_id r0 \<noteq> profile_id pr"
  shows "perform (profile_id pr) now (Update (productData (formData st) now) pid) b = Inl Forbidden
         \<and> fst (handleSubmit (Some pr) (Some pid) now (b, st)) = b
         \<and> message (snd (handleSubmit (Some pr) (Some pid) now (b, st)))
             = Some (error, error_message Forbidden)"
  by (simp add: handleSubmit_update[OF assms(1)] store_update_non_owner[OF assms(2,3,4)])

theorem update_by_non_owner_forbidden_witness:
  "''a'' \<noteq> []
   \<and> reachable two_rows_backend
   \<and> find (\<lambda>r. id' r = ''a'') (product_rows two_rows_backend) = Some (sample_product ''a'' 1)
   \<and> seller_id (sample_product ''a'' 1) \<noteq> profile_id seller_S2
   \<and> fst (handleSubmit (Some seller_S2) (Some ''a'') 7 (two_rows_backend, edited_draft))
       = two_rows_backend
   \<and> message (snd (handleSubmit (Some seller_S2) (Some ''a'') 7 (two_rows_backend, edited_draft)))
       = Some (error, ''Forbidden'')"
proof -
  have 1: "''a'' \<noteq> []"
    by simp
  have 2: "reachable two_rows_backend"
    by (simp add: two_rows_backend_def)
  have 4: "seller_id (sample_product ''a'' 1) \<noteq> profile_id seller_S2"
    by (simp add: sample_product_def seller_S2_def)
  from update_by_non_owner_forbidden[OF 1 2 two_rows_find_a 4, of 7 edited_draft] 1 2 4 two_rows_find_a
  show ?thesis
    by simp
qed

text \<open>
  C6, as the code has it. \<open>handleSubmit\<close> validates nothing: the only case in which it
  issues no store call is a missing profile. For a seller and a new product it issues an
  insert that carries the images of the form as they are, however many, and a reachable
  store then holds a new row with exactly these images.
\<close>

theorem submit_sends_draft_unchecked:
  "(submit_request prof productId now fd = None \<longleftrightarrow> prof = None)
   \<and> submit_request (Some pr) None now fd =
       Some (Insert (product_data.extend (productData fd now)
                       (insert_data.fields (profile_id pr) ''active'')))
   \<and> new_images (productData fd now) = form_images fd
   \<and> (reachable b \<longrightarrow>
        map images (product_rows (fst (handleSubmit (Some pr) None now (b, st))))
          = map images (product_rows b) @ [form_images (formData st)])"
  by (auto simp: submit_request_def productData_def handleSubmit_insert store_insert_def
      new_row_def product_data.extend_def insert_data.fields_def split: option.splits)

theorem submit_sends_draft_unchecked_witness:
  "reachable empty_backend
   \<and> submit_request (Some seller_S1) None 7 (formData phone_draft) \<noteq> None
   \<and> submit_request None None 7 (formData phone_draft) = None
   \<and> map images (product_rows (fst (handleSubmit (Some seller_S1) None 7 (empty_backend, phone_draft))))
       = map images (product_rows empty_backend) @ [form_images (formData phone_draft)]"
proof -
  have r: "reachable empty_backend"
    by (simp add: empty_backend_def)
  note t = submit_sends_draft_unchecked
  from t[of "Some seller_S1" None 7 "formData phone_draft" seller_S1 empty_backend phone_draft]
  have 1: "submit_request (Some seller_S1) None 7 (formData phone_draft) \<noteq> None"
    by simp
  from t[of None None 7 "formData phone_draft" seller_S1 empty_backend phone_draft]
  have 2: "submit_request None None 7 (formData phone_draft) = None"
    by simp
  from t[of "Some seller_S1" None 7 "formData phone_draft" seller_S1 empty_backend phone_draft] r
  have 3: "map images (product_rows (fst (handleSubmit (Some seller_S1) None 7 (empty_backend, phone_draft))))
       = map images (product_rows empty_backend) @ [form_images (formData phone_draft)]"
    by blast
  from r 1 2 3 show ?thesis
    by blast
qed

text \<open>
  C6 as the specification states it lets a draft with 6 images fail before any store call.
  Submitted by the seller S1, such a draft is inserted, and the form reports success.
\<close>

theorem six_images_written_counterexample:
  "submit_request (Some seller_S1) None 7 (formData six_images_draft) \<noteq> None
   \<and> map images (product_rows (fst (handleSubmit (Some seller_S1) None 7 (empty_backend, six_images_draft))))
       = [[''u1'', ''u2'', ''u3'', ''u4'', ''u5'', ''u6'']]
   \<and> message (snd (handleSubmit (Some seller_S1) None 7 (empty_backend, six_images_draft)))
       = Some (success, ''Product created successfully!'')"
  by (simp add: submit_request_def handleSubmit_insert store_insert_def empty_backend_def
      six_images_draft_def init_form_def new_row_def productData_def
      product_data.extend_def insert_data.fields_def)

end
